theory Spec2Isabelle
  imports Complex_Main "HOL-Library.Sublist"
begin

section \<open>PhishGuard scanner backend (src/extension/background.js)\<close>

text \<open>
  A shallow embedding of the scoring backend: \<open>normalizeScore\<close>, \<open>heuristicsScore\<close>,
  \<open>checkDomainAuth\<close>, the two reputation clients, \<open>getRedirectInfo\<close>,
  \<open>aggregateSignals\<close> with its cache, \<open>analyzeHeaders\<close>, \<open>analyzeBody\<close> and the
  handlers of \<open>POST /scan\<close> and \<open>POST /scan-email\<close>.

  Numbers. A score is a JavaScript number that is either \<open>NaN\<close> or an integer; it is
  an \<open>int number\<close> here. The other intermediate values of the two blends are IEEE
  doubles in the source and \<open>NaN\<close> or exact reals here. The two agree on every value
  the code rounds:
  \<^item> in \<open>aggregateSignals\<close> the products with 0.5 and 0.25, their sum and the weights
    0.5, 0.25 and 0.75 are exact doubles; the quotient is exact when one source is
    present, and with both present it is the double nearest to \<open>(2a + b) / 3\<close>, whose
    fractional part is 0, 1/3 or 2/3, so \<open>Math.round\<close> of the double and of the exact
    quotient are the same integer;
  \<^item> in the email handler the exact blend is \<open>(2h + b + 2l) / 5\<close>, whose fractional part
    is a multiple of 1/5, never 1/2, while the double is off by a few units in the last
    place only.
\<close>

subsection \<open>JavaScript primitives\<close>

text \<open>\<open>Math.round\<close>: the nearest integer, a tie going to the larger one.\<close>

definition js_round :: "real \<Rightarrow> int" where
  "js_round x = \<lfloor>x + 1 / 2\<rfloor>"

text \<open>
  Case folding of the ASCII letters: for the codes 65 to 90 the bit of value 32 is set,
  other characters are left as they are. This is how a regular expression with the flag
  \<open>i\<close> (and without \<open>u\<close>) compares with an ASCII letter. It is not
  \<open>String.prototype.toLowerCase\<close>, which folds by Unicode and belongs to the platform
  (see \<open>env\<close> below).
\<close>

definition ascii_lower_char :: "char \<Rightarrow> char" where
  "ascii_lower_char c =
     (let n = (of_char c :: nat)
      in if 65 \<le> n \<and> n \<le> 90
         then (case c of Char b0 b1 b2 b3 b4 b5 b6 b7 \<Rightarrow> Char b0 b1 b2 b3 b4 True b6 b7)
         else c)"

definition ascii_lower :: "string \<Rightarrow> string" where
  "ascii_lower s = map ascii_lower_char s"

text \<open>\<open>s.includes(t)\<close> and \<open>s.startsWith(t)\<close>.\<close>

definition includes_str :: "string \<Rightarrow> string \<Rightarrow> bool" where
  "includes_str s t = sublist t s"

definition startsWith :: "string \<Rightarrow> string \<Rightarrow> bool" where
  "startsWith s t = prefix t s"

text \<open>\<open>s.split(d)\<close> for a one-character separator: never the empty array.\<close>

fun split_on :: "char \<Rightarrow> string \<Rightarrow> string list" where
  "split_on d [] = [[]]"
| "split_on d (c # cs) =
     (if c = d then [] # split_on d cs
      else (case split_on d cs of
              [] \<Rightarrow> [[c]]
            | p # ps \<Rightarrow> (c # p) # ps))"

text \<open>\<open>\d\<close> of a regular expression: an ASCII digit.\<close>

definition is_digit :: "char \<Rightarrow> bool" where
  "is_digit c = (let n = (of_char c :: nat) in 48 \<le> n \<and> n \<le> 57)"

text \<open>
  A JavaScript number as a provider's reply can hold it, and a property of a parsed
  reply: missing (\<open>undefined\<close>), \<open>null\<close>, a number, or a value of another type (a
  string, a boolean, an object, an array), of which the model keeps the number that
  \<open>Number(n)\<close> converts it to (\<open>NaN\<close> for \<open>'n/a'\<close>, 85 for \<open>'85'\<close>).
\<close>

datatype jsnumber = JNaN | JNegInfinity | JNum real | JPosInfinity

datatype field = FUndefined | FNull | FNumber jsnumber | FOther jsnumber

text \<open>
  A number that the code computes from clamped scores: \<open>NaN\<close> or a value. The
  arithmetic and the comparisons of JavaScript on it: \<open>NaN\<close> is contagious, and every
  comparison with \<open>NaN\<close> is false.
\<close>

datatype 'a number = NaN | Num 'a

definition number_plus :: "real number \<Rightarrow> real number \<Rightarrow> real number" where
  "number_plus x y =
     (case x of NaN \<Rightarrow> NaN | Num a \<Rightarrow> (case y of NaN \<Rightarrow> NaN | Num b \<Rightarrow> Num (a + b)))"

definition number_times :: "int number \<Rightarrow> real \<Rightarrow> real number" where
  "number_times x w = (case x of NaN \<Rightarrow> NaN | Num a \<Rightarrow> Num (real_of_int a * w))"

definition number_divide :: "real number \<Rightarrow> real \<Rightarrow> real number" where
  "number_divide x w = (case x of NaN \<Rightarrow> NaN | Num a \<Rightarrow> Num (a / w))"

definition number_round :: "real number \<Rightarrow> int number" where
  "number_round x = (case x of NaN \<Rightarrow> NaN | Num a \<Rightarrow> Num (js_round a))"

definition number_ge :: "int number \<Rightarrow> int \<Rightarrow> bool" where
  "number_ge x k = (case x of NaN \<Rightarrow> False | Num a \<Rightarrow> a \<ge> k)"

definition number_le :: "int number \<Rightarrow> int \<Rightarrow> bool" where
  "number_le x k = (case x of NaN \<Rightarrow> False | Num a \<Rightarrow> a \<le> k)"

definition number_gt :: "int number \<Rightarrow> int \<Rightarrow> bool" where
  "number_gt x k = (case x of NaN \<Rightarrow> False | Num a \<Rightarrow> a > k)"

text \<open>The only exception the modelled code can raise: \<open>new URL\<close> on a string that does not parse.\<close>

datatype exn = TypeError

subsection \<open>The world outside the process\<close>

record ipqs_data =
  fraud_score :: field
  data_malicious :: bool
  data_phishing :: bool
  data_malware :: bool
  data_suspicious :: bool

record stalk_data =
  riskScore :: field

record http_reply =
  responseUrl :: "string option"
  request_path :: "string option"
  redirectCountField :: "nat option"

text \<open>
  What one scan sees of the configuration, the network and the platform. The flags of
  \<open>ipqs_data\<close> are the truthiness of the provider's properties (\<open>!!data.malicious\<close>).
  A lookup is \<open>None\<close> when the call throws (failure, timeout, a reply that is not an
  object). \<open>url_hostname s\<close> is \<open>new URL(s).hostname\<close>, \<open>None\<close> when the constructor
  throws; \<open>anchor_token\<close>, \<open>from_address\<close> and \<open>return_path_address\<close> are the results
  of the three regular-expression matches (\<open>m[0]\<close>, respectively the captured
  address), \<open>None\<close> when there is no match; \<open>toLowerCase\<close> is
  \<open>String.prototype.toLowerCase\<close>. The theorems hold for every such world.
\<close>

record env =
  IPQS_API_KEY :: "string option"
  STALKPHISH_API_KEY :: "string option"
  CACHE_TTL :: nat
  ipqs_get :: "string \<Rightarrow> ipqs_data option"
  stalkphish_get :: "string \<Rightarrow> stalk_data option option"
  http_get :: "string \<Rightarrow> http_reply option"
  resolveTxt :: "string \<Rightarrow> string list list option"
  url_hostname :: "string \<Rightarrow> string option"
  anchor_token :: "string \<Rightarrow> string option"
  from_address :: "string \<Rightarrow> string option"
  return_path_address :: "string \<Rightarrow> string option"
  toLowerCase :: "string \<Rightarrow> string"

text \<open>\<open>Number(process.env.CACHE_TTL) || 60 * 60\<close>, for a configured whole number of seconds.\<close>

definition CACHE_TTL_SECONDS :: "env \<Rightarrow> nat" where
  "CACHE_TTL_SECONDS E = (if CACHE_TTL E = 0 then 60 * 60 else CACHE_TTL E)"

definition MALICIOUS_THRESHOLD :: int where
  "MALICIOUS_THRESHOLD = 80"

definition SUSPICIOUS_THRESHOLD :: int where
  "SUSPICIOUS_THRESHOLD = 50"

text \<open>A string or an absent value in a boolean position: \<open>if (x)\<close>, \<open>x || ''\<close>.\<close>

definition truthy :: "string option \<Rightarrow> bool" where
  "truthy x = (case x of None \<Rightarrow> False | Some s \<Rightarrow> s \<noteq> [])"

definition or_empty :: "string option \<Rightarrow> string" where
  "or_empty x = (case x of None \<Rightarrow> [] | Some s \<Rightarrow> s)"

subsection \<open>Utility functions\<close>

text \<open>\<open>Number(n)\<close>.\<close>

fun Number :: "field \<Rightarrow> jsnumber" where
  "Number FUndefined = JNaN"
| "Number FNull = JNum 0"
| "Number (FNumber x) = x"
| "Number (FOther x) = x"

text \<open>\<open>Math.max(0, Math.min(100, Math.round(x)))\<close>: \<open>NaN\<close> passes through all three.\<close>

fun clamp_round :: "jsnumber \<Rightarrow> int number" where
  "clamp_round JNaN = NaN"
| "clamp_round JNegInfinity = Num 0"
| "clamp_round JPosInfinity = Num 100"
| "clamp_round (JNum x) = Num (max 0 (min 100 (js_round x)))"

text \<open>
  The guard is \<open>n == null || Number.isNaN(n)\<close>. \<open>Number.isNaN\<close> does not convert its
  argument: it holds of the number \<open>NaN\<close> only, so a string that converts to \<open>NaN\<close>
  passes the guard and the result is \<open>NaN\<close>.
\<close>

definition normalizeScore :: "field \<Rightarrow> int number option" where
  "normalizeScore n =
     (if n = FUndefined \<or> n = FNull \<or> n = FNumber JNaN then None
      else Some (clamp_round (Number n)))"

definition isPunycode :: "string \<Rightarrow> bool" where
  "isPunycode hostname = includes_str hostname ''xn--''"

definition WEIGHTS_ipqs :: real where
  "WEIGHTS_ipqs = 1 / 2"

definition WEIGHTS_stalkphish :: real where
  "WEIGHTS_stalkphish = 1 / 4"

text \<open>\<open>/^(\d{1,3}\.){3}\d{1,3}$/\<close>: four dot-separated groups of one to three digits.\<close>

definition hasIPInHostname :: "string \<Rightarrow> bool" where
  "hasIPInHostname host =
     (let groups = split_on CHR ''.'' host
      in length groups = 4 \<and>
         list_all (\<lambda>g. 1 \<le> length g \<and> length g \<le> 3 \<and> list_all is_digit g) groups)"

definition suspiciousTLDs :: "string list" where
  "suspiciousTLDs =
     [''zip'', ''review'', ''country'', ''kim'', ''gq'', ''work'', ''top'', ''men'', ''party'']"

subsection \<open>heuristicsScore\<close>

definition new_URL :: "env \<Rightarrow> string \<Rightarrow> exn + string" where
  "new_URL E s = (case url_hostname E s of None \<Rightarrow> Inl TypeError | Some h \<Rightarrow> Inr h)"

text \<open>\<open>m.replace(/^www\./i, '')\<close>.\<close>

definition strip_www :: "string \<Rightarrow> string" where
  "strip_www m = (if ascii_lower (take 4 m) = ''www.'' then drop 4 m else m)"

text \<open>
  The block guarded by \<open>if (anchorText)\<close>: its contribution to the score. The inner
  \<open>try\<close> swallows the exception of \<open>new URL(m[0])\<close>.
\<close>

definition anchor_points :: "env \<Rightarrow> string option \<Rightarrow> string \<Rightarrow> int" where
  "anchor_points E anchorText hostname =
     (if \<not> truthy anchorText then 0
      else (case anchor_token E (or_empty anchorText) of
              None \<Rightarrow> 0
            | Some m \<Rightarrow>
                (case (if startsWith m ''http'' then new_URL E m else Inr (strip_www m)) of
                   Inl e \<Rightarrow> 0
                 | Inr aHost \<Rightarrow> if aHost \<noteq> [] \<and> aHost \<noteq> hostname then 12 else 0)))"

definition tld_points :: "env \<Rightarrow> string \<Rightarrow> int" where
  "tld_points E hostname =
     (let tld = toLowerCase E (last (split_on CHR ''.'' hostname))
      in if tld \<noteq> [] \<and> tld \<in> set suspiciousTLDs then 8 else 0)"

definition redirect_points :: "nat option \<Rightarrow> int" where
  "redirect_points redirectCount =
     (case redirectCount of
        None \<Rightarrow> 0
      | Some n \<Rightarrow> if 3 \<le> n then min 12 (int n * 3) else 0)"

text \<open>The block guarded by \<open>if (finalUrl)\<close>, with its own \<open>try\<close>.\<close>

definition final_points :: "env \<Rightarrow> string option \<Rightarrow> string \<Rightarrow> int" where
  "final_points E finalUrl hostname =
     (if \<not> truthy finalUrl then 0
      else (case new_URL E (or_empty finalUrl) of
              Inl e \<Rightarrow> 0
            | Inr f \<Rightarrow> if f \<noteq> hostname then 6 else 0))"

text \<open>The body of the outer \<open>try\<close>: it throws exactly when \<open>new URL(url)\<close> does.\<close>

definition heuristics_try :: "env \<Rightarrow> string \<Rightarrow> string option \<Rightarrow> nat option \<Rightarrow> string option \<Rightarrow> exn + int" where
  "heuristics_try E url anchorText redirectCount finalUrl =
     (case new_URL E url of
        Inl e \<Rightarrow> Inl e
      | Inr hostname \<Rightarrow>
          Inr (0 + anchor_points E anchorText hostname
                 + (if isPunycode hostname then 10 else 0)
                 + (if hasIPInHostname hostname then 12 else 0)
                 + tld_points E hostname
                 + redirect_points redirectCount
                 + final_points E finalUrl hostname))"

definition heuristicsScore :: "env \<Rightarrow> string \<Rightarrow> string option \<Rightarrow> nat option \<Rightarrow> string option \<Rightarrow> int" where
  "heuristicsScore E url anchorText redirectCount finalUrl =
     (case heuristics_try E url anchorText redirectCount finalUrl of
        Inl e \<Rightarrow> 0
      | Inr score \<Rightarrow> score)"

subsection \<open>External signal clients\<close>

record domain_auth =
  spf :: bool
  dmarc :: bool

definition txt_has :: "env \<Rightarrow> string \<Rightarrow> string list list option \<Rightarrow> bool" where
  "txt_has E tag answer =
     (case answer of
        None \<Rightarrow> False
      | Some txts \<Rightarrow> list_ex (\<lambda>rec. startsWith (toLowerCase E (concat rec)) tag) txts)"

definition checkDomainAuth :: "env \<Rightarrow> string \<Rightarrow> domain_auth" where
  "checkDomainAuth E domain =
     \<lparr>spf = txt_has E ''v=spf1'' (resolveTxt E domain),
      dmarc = txt_has E ''v=dmarc1'' (resolveTxt E (''_dmarc.'' @ domain))\<rparr>"

record ipqs_flags =
  malicious :: bool
  phishing :: bool
  malware :: bool
  suspicious :: bool

record ipqs_result =
  ipqs_score :: "int number option"
  flags :: ipqs_flags

definition callIPQS :: "env \<Rightarrow> string \<Rightarrow> ipqs_result option" where
  "callIPQS E url =
     (if \<not> truthy (IPQS_API_KEY E) then None
      else (case ipqs_get E url of
              None \<Rightarrow> None
            | Some d \<Rightarrow>
                Some \<lparr>ipqs_score =
                        (if fraud_score d \<noteq> FUndefined then normalizeScore (fraud_score d) else None),
                      flags = \<lparr>malicious = data_malicious d, phishing = data_phishing d,
                               malware = data_malware d, suspicious = data_suspicious d\<rparr>\<rparr>))"

record stalk_result =
  stalk_score :: "int number option"

definition callStalkPhish :: "env \<Rightarrow> string \<Rightarrow> stalk_result option" where
  "callStalkPhish E url =
     (if \<not> truthy (STALKPHISH_API_KEY E) then None
      else (case stalkphish_get E url of
              None \<Rightarrow> None
            | Some None \<Rightarrow> Some \<lparr>stalk_score = None\<rparr>
            | Some (Some d) \<Rightarrow>
                Some \<lparr>stalk_score =
                        (if riskScore d \<noteq> FUndefined then normalizeScore (riskScore d) else None)\<rparr>))"

record redirect_info =
  finalUrl :: "string option"
  redirectCount :: nat

definition getRedirectInfo :: "env \<Rightarrow> string \<Rightarrow> redirect_info" where
  "getRedirectInfo E url =
     (case http_get E url of
        None \<Rightarrow> \<lparr>finalUrl = None, redirectCount = 0\<rparr>
      | Some r \<Rightarrow>
          \<lparr>finalUrl =
             (if truthy (responseUrl r) then responseUrl r
              else if truthy (request_path r) then request_path r
              else None),
           redirectCount = (case redirectCountField r of None \<Rightarrow> 0 | Some n \<Rightarrow> n)\<rparr>)"

subsection \<open>The result cache\<close>

datatype verdict = Safe | Suspicious | Malicious

text \<open>
  The object \<open>{ url, verdict, score, breakdown }\<close> that \<open>aggregateSignals\<close> builds; a
  cache hit adds the property \<open>cached\<close>, so it is optional (\<open>None\<close>: the object has no
  such property). The source leaves \<open>breakdown\<close> an empty object.
\<close>

record scan_result =
  r_url :: string
  r_verdict :: verdict
  r_score :: "int number"
  r_breakdown :: unit
  r_cached :: "bool option"

text \<open>
  The store behind \<open>cache.get\<close> and \<open>cache.set\<close> (the node-cache package, with a
  positive \<open>stdTTL\<close>): a key maps to a value and the instant, in milliseconds, after
  which \<open>get\<close> no longer returns it. \<open>get\<close> also drops an expired entry; every miss
  of \<open>aggregateSignals\<close> overwrites that very key, so the model leaves it in place.
\<close>

type_synonym cache = "string \<rightharpoonup> scan_result \<times> nat"

definition cache_get :: "cache \<Rightarrow> nat \<Rightarrow> string \<Rightarrow> scan_result option" where
  "cache_get c now k =
     (case c k of
        None \<Rightarrow> None
      | Some (v, expiry) \<Rightarrow> if expiry < now then None else Some v)"

definition cache_set :: "cache \<Rightarrow> nat \<Rightarrow> nat \<Rightarrow> string \<Rightarrow> scan_result \<Rightarrow> cache" where
  "cache_set c now ttl k v = c(k \<mapsto> (v, now + ttl * 1000))"

subsection \<open>aggregateSignals\<close>

definition cacheKey :: "string \<Rightarrow> string option \<Rightarrow> string option \<Rightarrow> string" where
  "cacheKey url anchorText senderDomain =
     ''scan::'' @ url @ ''::'' @ or_empty anchorText @ ''::'' @ or_empty senderDomain"

text \<open>
  The two guarded updates of \<open>weightedSum\<close> and of \<open>totalWeight\<close>. A score that is
  not \<open>null\<close> counts, \<open>NaN\<close> included.
\<close>

definition weightedSum :: "int number option \<Rightarrow> int number option \<Rightarrow> real number" where
  "weightedSum ipqsScore stalkScore =
     (let sum0 = Num 0;
          sum1 = (case ipqsScore of
                    None \<Rightarrow> sum0
                  | Some a \<Rightarrow> number_plus sum0 (number_times a WEIGHTS_ipqs))
      in case stalkScore of
           None \<Rightarrow> sum1
         | Some b \<Rightarrow> number_plus sum1 (number_times b WEIGHTS_stalkphish))"

definition totalWeight :: "int number option \<Rightarrow> int number option \<Rightarrow> real" where
  "totalWeight ipqsScore stalkScore =
     (let weight0 = 0;
          weight1 = (case ipqsScore of None \<Rightarrow> weight0 | Some a \<Rightarrow> weight0 + WEIGHTS_ipqs)
      in case stalkScore of None \<Rightarrow> weight1 | Some b \<Rightarrow> weight1 + WEIGHTS_stalkphish)"

definition baseScore :: "int number option \<Rightarrow> int number option \<Rightarrow> int number" where
  "baseScore ipqsScore stalkScore =
     (if totalWeight ipqsScore stalkScore > 0
      then number_round
             (number_divide (weightedSum ipqsScore stalkScore) (totalWeight ipqsScore stalkScore))
      else Num 50)"

definition heuristicsContribution :: "int \<Rightarrow> int" where
  "heuristicsContribution heurScoreRaw = min 30 heurScoreRaw"

definition authBonus :: "domain_auth \<Rightarrow> int" where
  "authBonus authR = (if spf authR then - 6 else 6) + (if dmarc authR then - 4 else 4)"

definition finalRaw :: "int number \<Rightarrow> int \<Rightarrow> int \<Rightarrow> int number" where
  "finalRaw base contribution bonus =
     (case base of
        NaN \<Rightarrow> NaN
      | Num b \<Rightarrow> Num (max 0 (min 100 (b + contribution + bonus))))"

definition explicitMalicious :: "ipqs_result option \<Rightarrow> bool" where
  "explicitMalicious ipqsR =
     (case ipqsR of None \<Rightarrow> False | Some r \<Rightarrow> malicious (flags r) \<or> phishing (flags r))"

text \<open>\<open>Math.max(NaN, 85)\<close> is \<open>NaN\<close>.\<close>

definition finalScore :: "bool \<Rightarrow> int number \<Rightarrow> int number" where
  "finalScore explicit raw =
     (if explicit then (case raw of NaN \<Rightarrow> NaN | Num r \<Rightarrow> Num (max r 85)) else raw)"

definition url_verdict :: "int number \<Rightarrow> verdict" where
  "url_verdict s =
     (if number_ge s 70 then Malicious else if number_ge s 40 then Suspicious else Safe)"

text \<open>\<open>ipqsR?.score ?? null\<close> and \<open>stalkR?.score ?? null\<close>.\<close>

definition ipqs_score_of :: "ipqs_result option \<Rightarrow> int number option" where
  "ipqs_score_of ipqsR = (case ipqsR of None \<Rightarrow> None | Some r \<Rightarrow> ipqs_score r)"

definition stalk_score_of :: "stalk_result option \<Rightarrow> int number option" where
  "stalk_score_of stalkR = (case stalkR of None \<Rightarrow> None | Some r \<Rightarrow> stalk_score r)"

text \<open>
  What \<open>aggregateSignals\<close> computes once the cache has missed: the four lookups and
  the blend of their answers.
\<close>

definition aggregate_fresh :: "env \<Rightarrow> string \<Rightarrow> string option \<Rightarrow> string option \<Rightarrow> scan_result" where
  "aggregate_fresh E url anchorText senderDomain =
     (let ipqsR = callIPQS E url;
          stalkR = callStalkPhish E url;
          redirectR = getRedirectInfo E url;
          authR = (if truthy senderDomain then checkDomainAuth E (or_empty senderDomain)
                   else \<lparr>spf = False, dmarc = False\<rparr>);
          ipqsScore = ipqs_score_of ipqsR;
          stalkScore = stalk_score_of stalkR;
          heurScoreRaw = heuristicsScore E url anchorText
                           (Some (redirectCount redirectR)) (finalUrl redirectR);
          raw = finalRaw (baseScore ipqsScore stalkScore)
                         (heuristicsContribution heurScoreRaw) (authBonus authR);
          final = finalScore (explicitMalicious ipqsR) raw
      in \<lparr>r_url = url, r_verdict = url_verdict final, r_score = final,
          r_breakdown = (), r_cached = None\<rparr>)"

text \<open>The calls a run issues, in the order in which it issues them.\<close>

datatype call =
    Call_analyzeHeaders
  | Call_analyzeBody
  | Call_aggregateSignals string
  | Call_callIPQS string
  | Call_callStalkPhish string
  | Call_getRedirectInfo string
  | Call_checkDomainAuth string
  | Call_cache_set string

definition lookups :: "string \<Rightarrow> string option \<Rightarrow> call list" where
  "lookups url senderDomain =
     [Call_callIPQS url, Call_callStalkPhish url, Call_getRedirectInfo url]
     @ (if truthy senderDomain then [Call_checkDomainAuth (or_empty senderDomain)] else [])"

text \<open>
  \<open>aggregateSignals\<close> at the instant \<open>now\<close> on the cache \<open>c\<close>: the result, the cache
  afterwards and the calls issued.
\<close>

definition aggregateSignals ::
  "env \<Rightarrow> nat \<Rightarrow> cache \<Rightarrow> string \<Rightarrow> string option \<Rightarrow> string option
     \<Rightarrow> scan_result \<times> cache \<times> call list" where
  "aggregateSignals E now c url anchorText senderDomain =
     (let key = cacheKey url anchorText senderDomain
      in case cache_get c now key of
           Some hit \<Rightarrow> (hit\<lparr>r_cached := Some True\<rparr>, c, [])
         | None \<Rightarrow>
             (let result = aggregate_fresh E url anchorText senderDomain
              in (result, cache_set c now (CACHE_TTL_SECONDS E) key result,
                  lookups url senderDomain @ [Call_cache_set key])))"

subsection \<open>Email analysis\<close>

record header_report =
  report_spf :: string
  report_dkim :: string
  report_dmarc :: string
  mismatch_from_return :: bool

definition auth_marker :: "string \<Rightarrow> string \<Rightarrow> int \<Rightarrow> int \<Rightarrow> int \<times> string" where
  "auth_marker lowerHeaders name pass fail =
     (if includes_str lowerHeaders (name @ ''=pass'') then (pass, ''pass'')
      else if includes_str lowerHeaders (name @ ''=fail'') then (fail, ''fail'')
      else (0, ''neutral''))"

definition analyzeHeaders :: "env \<Rightarrow> string option \<Rightarrow> int \<times> header_report" where
  "analyzeHeaders E headersText =
     (if \<not> truthy headersText
      then (10, \<lparr>report_spf = ''neutral'', report_dkim = ''neutral'',
                 report_dmarc = ''neutral'', mismatch_from_return = False\<rparr>)
      else
        (let lowerHeaders = toLowerCase E (or_empty headersText);
             s = auth_marker lowerHeaders ''spf'' (- 15) 25;
             k = auth_marker lowerHeaders ''dkim'' (- 10) 20;
             m = auth_marker lowerHeaders ''dmarc'' (- 5) 25;
             mismatch =
               (case (from_address E lowerHeaders, return_path_address E lowerHeaders) of
                  (Some f, Some r) \<Rightarrow> f \<noteq> r
                | _ \<Rightarrow> False);
             raw_score = 0 + fst s + fst k + fst m + (if mismatch then 20 else 0)
         in (max 0 raw_score,
             \<lparr>report_spf = snd s, report_dkim = snd k, report_dmarc = snd m,
              mismatch_from_return = mismatch\<rparr>)))"

definition urgencyKeywords :: "string list" where
  "urgencyKeywords =
     [''urgent'', ''action required'', ''account suspended'', ''verify your account'',
      ''password expired'', ''unusual activity'', ''security alert'', ''confirm your identity'']"

fun keyword_loop :: "string \<Rightarrow> string list \<Rightarrow> int \<times> string list \<Rightarrow> int \<times> string list" where
  "keyword_loop lowerBody [] acc = acc"
| "keyword_loop lowerBody (keyword # rest) (points, keywordsFound) =
     keyword_loop lowerBody rest
       (if includes_str lowerBody keyword then (points + 8, keywordsFound @ [keyword])
        else (points, keywordsFound))"

definition analyzeBody :: "env \<Rightarrow> string option \<Rightarrow> int \<times> string list" where
  "analyzeBody E bodyText =
     (if \<not> truthy bodyText then (0, [])
      else keyword_loop (toLowerCase E (or_empty bodyText)) urgencyKeywords (0, []))"

subsection \<open>POST /scan-email\<close>

record link =
  link_href :: string
  link_anchorText :: "string option"

text \<open>
  The loop over \<open>linkResults\<close>: the running maximum, starting at 0, and the link that
  set it. \<open>result.score > highestLinkScore\<close> is false of a score \<open>NaN\<close>, so such a
  result is passed over and the maximum stays an integer.
\<close>

fun link_loop ::
  "scan_result list \<Rightarrow> int \<times> (string \<times> int) option \<Rightarrow> int \<times> (string \<times> int) option" where
  "link_loop [] acc = acc"
| "link_loop (result # rest) (highest, most) =
     link_loop rest
       (if number_gt (r_score result) highest
        then (case r_score result of
                NaN \<Rightarrow> (highest, most)
              | Num n \<Rightarrow> (n, Some (r_url result, n)))
        else (highest, most))"

definition email_score :: "int \<Rightarrow> int \<Rightarrow> int \<Rightarrow> int" where
  "email_score headerScore bodyScore highest =
     js_round (min 100 (real_of_int headerScore * (4 / 10) + real_of_int bodyScore * (2 / 10)
                        + real_of_int highest * (4 / 10)))"

definition email_verdict :: "int \<Rightarrow> verdict" where
  "email_verdict s =
     (if s \<ge> MALICIOUS_THRESHOLD then Malicious
      else if s \<ge> SUSPICIOUS_THRESHOLD then Suspicious
      else Safe)"

record body_analysis =
  analysis_keywords :: "string list"

record link_analysis =
  highestLinkScore :: int
  mostMaliciousLink :: "(string \<times> int) option"

record email_breakdown =
  headerAnalysis :: header_report
  bodyAnalysis :: body_analysis
  linkAnalysis :: link_analysis
  breakdown_finalScore :: int

record email_response =
  e_ok :: bool
  e_verdict :: verdict
  e_score :: int
  e_breakdown :: email_breakdown

datatype 'a response = Status200 'a | Status400 string | Status500 string

text \<open>
  The link scans of one email. \<open>links.map\<close> starts every \<open>aggregateSignals\<close> before
  any of them resumes after its \<open>await\<close>: each scan reads the cache as the handler
  found it and, on a miss, issues its lookups at once; the writes of the scans that
  missed come after all of that. The writes are applied in the order of the links (the
  order in which the scans finish is not fixed by the program; it matters only when two
  links of one email share a key).
\<close>

definition scan_link :: "env \<Rightarrow> nat \<Rightarrow> cache \<Rightarrow> link \<Rightarrow> scan_result \<times> cache \<times> call list" where
  "scan_link E now c l = aggregateSignals E now c (link_href l) (link_anchorText l) None"

definition link_missed :: "nat \<Rightarrow> cache \<Rightarrow> link \<Rightarrow> bool" where
  "link_missed now c l =
     (cache_get c now (cacheKey (link_href l) (link_anchorText l) None) = None)"

definition link_write :: "env \<Rightarrow> nat \<Rightarrow> cache \<Rightarrow> link \<Rightarrow> cache \<Rightarrow> cache" where
  "link_write E now c l c' =
     (if link_missed now c l
      then cache_set c' now (CACHE_TTL_SECONDS E)
             (cacheKey (link_href l) (link_anchorText l) None) (fst (scan_link E now c l))
      else c')"

definition link_calls :: "nat \<Rightarrow> cache \<Rightarrow> link \<Rightarrow> call list" where
  "link_calls now c l =
     Call_aggregateSignals (link_href l)
     # (if link_missed now c l then lookups (link_href l) None else [])"

definition link_sets :: "nat \<Rightarrow> cache \<Rightarrow> link list \<Rightarrow> call list" where
  "link_sets now c ls =
     map (\<lambda>l. Call_cache_set (cacheKey (link_href l) (link_anchorText l) None))
       (filter (link_missed now c) ls)"

text \<open>
  The handler of \<open>POST /scan-email\<close> on the body \<open>{ headers, body, links }\<close>. With
  requests of this shape nothing throws outside a \<open>try\<close> of its own, so the handler's
  \<open>catch\<close> (status 500) is never entered.
\<close>

definition post_scan_email ::
  "env \<Rightarrow> nat \<Rightarrow> cache \<Rightarrow> string option \<Rightarrow> string option \<Rightarrow> link list option
     \<Rightarrow> email_response response \<times> cache \<times> call list" where
  "post_scan_email E now c headers body links =
     (if \<not> truthy body then (Status400 ''missing email body'', c, [])
      else
        (let hdr = analyzeHeaders E headers;
             bdy = analyzeBody E body;
             ls = (case links of None \<Rightarrow> [] | Some xs \<Rightarrow> xs);
             linkResults = map (\<lambda>l. fst (scan_link E now c l)) ls;
             best = link_loop linkResults (0, None);
             normalizedScore = email_score (fst hdr) (fst bdy) (fst best)
         in (Status200
               \<lparr>e_ok = True, e_verdict = email_verdict normalizedScore, e_score = normalizedScore,
                e_breakdown =
                  \<lparr>headerAnalysis = snd hdr,
                   bodyAnalysis = \<lparr>analysis_keywords = snd bdy\<rparr>,
                   linkAnalysis = \<lparr>highestLinkScore = fst best, mostMaliciousLink = snd best\<rparr>,
                   breakdown_finalScore = normalizedScore\<rparr>\<rparr>,
             fold (link_write E now c) ls c,
             [Call_analyzeHeaders, Call_analyzeBody] @ concat (map (link_calls now c) ls)
             @ link_sets now c ls)))"

subsection \<open>POST /scan\<close>

text \<open>\<open>{ ok: true, ...aggregated }\<close>: the result's properties, \<open>cached\<close> among them only if the result has it.\<close>

record scan_response = scan_result +
  r_ok :: bool

definition post_scan ::
  "env \<Rightarrow> nat \<Rightarrow> cache \<Rightarrow> string option \<Rightarrow> string option \<Rightarrow> string option
     \<Rightarrow> scan_response response \<times> cache \<times> call list" where
  "post_scan E now c url anchorText senderDomain =
     (if \<not> truthy url then (Status400 ''missing url'', c, [])
      else
        (case aggregateSignals E now c (or_empty url) anchorText senderDomain of
           (aggregated, c', calls) \<Rightarrow>
             (Status200
                \<lparr>r_url = r_url aggregated, r_verdict = r_verdict aggregated,
                 r_score = r_score aggregated, r_breakdown = r_breakdown aggregated,
                 r_cached = r_cached aggregated, r_ok = True\<rparr>,
              c', Call_aggregateSignals (or_empty url) # calls)))"

subsection \<open>Runs of the server\<close>

text \<open>
  The caches the server can be in. It starts with an empty one, and the only write in
  the program is the \<open>cache.set(cacheKey, result)\<close> that ends a scan which missed:
  for some target, at some instant, in some world. Closing under that write covers every
  order in which concurrent scans may finish.
\<close>

inductive reachable :: "cache \<Rightarrow> bool" where
  start: "reachable Map.empty"
| store: "reachable c \<Longrightarrow>
          reachable (cache_set c now (CACHE_TTL_SECONDS E) (cacheKey url anchorText senderDomain)
                       (aggregate_fresh E url anchorText senderDomain))"



text \<open>The scores of a list that are numbers, in order.\<close>

fun numeric :: "int number list \<Rightarrow> int list" where
  "numeric [] = []"
| "numeric (NaN # xs) = numeric xs"
| "numeric (Num n # xs) = n # numeric xs"


subsection \<open>Example worlds\<close>

text \<open>
  A stand-in for \<open>new URL(s).hostname\<close> that reads only the shapes
  \<open>http://host/...\<close> and \<open>https://host/...\<close> and refuses an empty host and a host
  with a bracket (as in \<open>http://[\<close>), and for the anchor-text match one that takes the
  text up to the first space; \<open>ascii_lower\<close> stands in for \<open>toLowerCase\<close>, with
  which it agrees on the ASCII strings of the examples. They serve the examples below;
  the general theorems depend on none of them.
\<close>

definition simple_host :: "string \<Rightarrow> string option" where
  "simple_host rest =
     (let host = takeWhile (\<lambda>ch. ch \<noteq> CHR ''/'') rest
      in if host = [] \<or> CHR ''['' \<in> set host then None else Some host)"

definition simple_hostname :: "string \<Rightarrow> string option" where
  "simple_hostname s =
     (if startsWith s ''http://'' then simple_host (drop 7 s)
      else if startsWith s ''https://'' then simple_host (drop 8 s)
      else None)"

definition simple_token :: "string \<Rightarrow> string option" where
  "simple_token s = Some (takeWhile (\<lambda>ch. ch \<noteq> CHR '' '') s)"

text \<open>No API key, no network, no DNS.\<close>

definition env_offline :: env where
  "env_offline =
     \<lparr>IPQS_API_KEY = None, STALKPHISH_API_KEY = None, CACHE_TTL = 0,
      ipqs_get = (\<lambda>u. None), stalkphish_get = (\<lambda>u. None), http_get = (\<lambda>u. None),
      resolveTxt = (\<lambda>d. None), url_hostname = simple_hostname, anchor_token = simple_token,
      from_address = (\<lambda>h. None), return_path_address = (\<lambda>h. None),
      toLowerCase = ascii_lower\<rparr>"

text \<open>
  Both keys configured. The first provider rates \<open>http://bad.example/\<close> at 95, flags
  \<open>http://flagged.example/\<close>, which it rates at 0, as malicious, and replies to
  \<open>http://unrated.example/\<close> with \<open>fraud_score: null\<close>; the second provider's replies
  have no \<open>riskScore\<close>.
\<close>

definition env_online :: env where
  "env_online =
     \<lparr>IPQS_API_KEY = Some ''key-a'', STALKPHISH_API_KEY = Some ''key-b'', CACHE_TTL = 600,
      ipqs_get = (\<lambda>u. Some \<lparr>fraud_score =
                                 (if u = ''http://unrated.example/'' then FNull
                                  else FNumber (JNum (if u = ''http://bad.example/'' then 95 else 0))),
                               data_malicious = (u = ''http://flagged.example/''),
                               data_phishing = False, data_malware = False,
                               data_suspicious = False\<rparr>),
      stalkphish_get = (\<lambda>u. Some (Some \<lparr>riskScore = FUndefined\<rparr>)),
      http_get = (\<lambda>u. Some \<lparr>responseUrl = Some u, request_path = None,
                               redirectCountField = Some 0\<rparr>),
      resolveTxt = (\<lambda>d. Some [[''v=spf1 -all'']]),
      url_hostname = simple_hostname, anchor_token = simple_token,
      from_address = (\<lambda>h. None), return_path_address = (\<lambda>h. None),
      toLowerCase = ascii_lower\<rparr>"

text \<open>
  Both keys configured. The first provider flags every URL as malicious and sends the
  string \<open>'n/a'\<close> as \<open>fraud_score\<close>; the second provider rates every URL at 20.
\<close>

definition env_garbled :: env where
  "env_garbled =
     \<lparr>IPQS_API_KEY = Some ''key-a'', STALKPHISH_API_KEY = Some ''key-b'', CACHE_TTL = 600,
      ipqs_get = (\<lambda>u. Some \<lparr>fraud_score = FOther JNaN, data_malicious = True,
                               data_phishing = False, data_malware = False,
                               data_suspicious = False\<rparr>),
      stalkphish_get = (\<lambda>u. Some (Some \<lparr>riskScore = FNumber (JNum 20)\<rparr>)),
      http_get = (\<lambda>u. None),
      resolveTxt = (\<lambda>d. None),
      url_hostname = simple_hostname, anchor_token = simple_token,
      from_address = (\<lambda>h. None), return_path_address = (\<lambda>h. None),
      toLowerCase = ascii_lower\<rparr>"

text \<open>
  Both keys configured. The first provider rates every URL at 90 and flags none; the
  second provider sends the string \<open>'n/a'\<close> as \<open>riskScore\<close>.
\<close>

definition env_garbled_second :: env where
  "env_garbled_second =
     \<lparr>IPQS_API_KEY = Some ''key-a'', STALKPHISH_API_KEY = Some ''key-b'', CACHE_TTL = 600,
      ipqs_get = (\<lambda>u. Some \<lparr>fraud_score = FNumber (JNum 90), data_malicious = False,
                               data_phishing = False, data_malware = False,
                               data_suspicious = False\<rparr>),
      stalkphish_get = (\<lambda>u. Some (Some \<lparr>riskScore = FOther JNaN\<rparr>)),
      http_get = (\<lambda>u. None),
      resolveTxt = (\<lambda>d. None),
      url_hostname = simple_hostname, anchor_token = simple_token,
      from_address = (\<lambda>h. None), return_path_address = (\<lambda>h. None),
      toLowerCase = ascii_lower\<rparr>"

text \<open>The cache after one scan of \<open>http://example.com/\<close> in the offline world at instant 0.\<close>

definition cache_example :: cache where
  "cache_example =
     fst (snd (post_scan env_offline 0 Map.empty (Some ''http://example.com/'') None None))"

section \<open>Properties\<close>

subsection \<open>Arithmetic of the blend\<close>

lemma js_round_of_int: "js_round (real_of_int n) = n"
  by (simp add: js_round_def)



lemma baseScore_absent: "baseScore None None = Num 50"
  by (simp add: baseScore_def totalWeight_def Let_def)

lemma baseScore_only_stalk: "baseScore None (Some (Num b)) = Num b"
  by (simp add: baseScore_def totalWeight_def weightedSum_def Let_def WEIGHTS_stalkphish_def
      number_plus_def number_times_def number_divide_def number_round_def js_round_of_int)

lemma baseScore_only_ipqs: "baseScore (Some (Num a)) None = Num a"
  by (simp add: baseScore_def totalWeight_def weightedSum_def Let_def WEIGHTS_ipqs_def
      number_plus_def number_times_def number_divide_def number_round_def js_round_of_int)

lemma totalWeight_present:
  "totalWeight (Some a) s > 0" "totalWeight i (Some b) > 0"
  by (simp_all add: totalWeight_def Let_def WEIGHTS_ipqs_def WEIGHTS_stalkphish_def
      split: option.splits)

text \<open>A score \<open>NaN\<close> from either source makes the base score \<open>NaN\<close>.\<close>

lemma baseScore_NaN:
  "baseScore (Some NaN) s = NaN" "baseScore i (Some NaN) = NaN"
  by (simp_all add: baseScore_def totalWeight_present weightedSum_def Let_def number_plus_def
      number_times_def number_divide_def number_round_def split: option.splits number.splits)

text \<open>Without a score \<open>NaN\<close> the base score is a number.\<close>

lemma baseScore_number:
  "i \<noteq> Some NaN \<Longrightarrow> s \<noteq> Some NaN \<Longrightarrow> \<exists>n. baseScore i s = Num n"
  by (auto simp: baseScore_def weightedSum_def Let_def number_plus_def number_times_def
      number_divide_def number_round_def split: option.splits number.splits)

lemma url_verdict_cases:
  "(url_verdict (Num s) = Malicious \<longleftrightarrow> 70 \<le> s)
   \<and> (url_verdict (Num s) = Suspicious \<longleftrightarrow> 40 \<le> s \<and> s \<le> 69)
   \<and> (url_verdict (Num s) = Safe \<longleftrightarrow> s \<le> 39)"
  by (auto simp: url_verdict_def number_ge_def)

lemma email_verdict_cases:
  "(email_verdict s = Malicious \<longleftrightarrow> 80 \<le> s)
   \<and> (email_verdict s = Suspicious \<longleftrightarrow> 50 \<le> s \<and> s \<le> 79)
   \<and> (email_verdict s = Safe \<longleftrightarrow> s \<le> 49)"
  by (auto simp: email_verdict_def MALICIOUS_THRESHOLD_def SUSPICIOUS_THRESHOLD_def)

subsection \<open>Results and the cache\<close>

lemma fresh_score:
  "r_score (aggregate_fresh E url a s) =
     finalScore (explicitMalicious (callIPQS E url))
       (finalRaw (baseScore (ipqs_score_of (callIPQS E url)) (stalk_score_of (callStalkPhish E url)))
          (heuristicsContribution
             (heuristicsScore E url a (Some (redirectCount (getRedirectInfo E url)))
                (finalUrl (getRedirectInfo E url))))
          (authBonus (if truthy s then checkDomainAuth E (or_empty s)
                      else \<lparr>spf = False, dmarc = False\<rparr>)))"
  "r_verdict (aggregate_fresh E url a s) = url_verdict (r_score (aggregate_fresh E url a s))"
  "r_url (aggregate_fresh E url a s) = url"
  "r_cached (aggregate_fresh E url a s) = None"
  by (simp_all add: aggregate_fresh_def Let_def)


text \<open>
  What holds of a computed result when no source sends a score that converts to
  \<open>NaN\<close>: the score is an integer within 0..100, at least 85 under an explicit flag.
\<close>

lemma fresh_numeric:
  assumes "ipqs_score_of (callIPQS E url) \<noteq> Some NaN"
    and "stalk_score_of (callStalkPhish E url) \<noteq> Some NaN"
  shows "\<exists>n. r_score (aggregate_fresh E url a s) = Num n \<and> 0 \<le> n \<and> n \<le> 100
           \<and> (explicitMalicious (callIPQS E url) \<longrightarrow>
                 85 \<le> n \<and> r_verdict (aggregate_fresh E url a s) = Malicious)"
proof -
  from baseScore_number [OF assms] obtain b where
    "baseScore (ipqs_score_of (callIPQS E url)) (stalk_score_of (callStalkPhish E url)) = Num b"
    by blast
  then show ?thesis
    by (auto simp: fresh_score finalRaw_def finalScore_def url_verdict_def number_ge_def)
qed




lemma aggregate_miss:
  "cache_get c now (cacheKey url a s) = None \<Longrightarrow>
   fst (aggregateSignals E now c url a s) = aggregate_fresh E url a s"
  by (simp add: aggregateSignals_def Let_def)

lemma consults_iff_miss:
  "Call_callIPQS url \<in> set (snd (snd (aggregateSignals E now c url a s)))
     \<longleftrightarrow> cache_get c now (cacheKey url a s) = None"
  "Call_callStalkPhish url \<in> set (snd (snd (aggregateSignals E now c url a s)))
     \<longleftrightarrow> cache_get c now (cacheKey url a s) = None"
  by (simp_all add: aggregateSignals_def Let_def lookups_def split: option.splits)




text \<open>Both handlers lead from reachable caches to reachable caches.\<close>

lemma reachable_aggregate:
  "reachable c \<Longrightarrow> reachable (fst (snd (aggregateSignals E now c url a s)))"
  by (auto simp: aggregateSignals_def Let_def intro: reachable.store split: option.splits)

lemma reachable_post_scan:
  "reachable c \<Longrightarrow> reachable (fst (snd (post_scan E now c url a s)))"
  using reachable_aggregate [of c E now "or_empty url" a s]
  by (auto simp: post_scan_def split: prod.splits)

lemma reachable_link_writes:
  "reachable c' \<Longrightarrow> reachable (fold (link_write E now c) ls c')"
proof (induction ls arbitrary: c')
  case Nil
  then show ?case by simp
next
  case (Cons l ls)
  have "reachable (link_write E now c l c')"
    using Cons.prems
    by (auto simp: link_write_def link_missed_def scan_link_def aggregate_miss
        intro: reachable.store)
  then show ?case using Cons.IH by simp
qed

lemma reachable_post_scan_email:
  "reachable c \<Longrightarrow> reachable (fst (snd (post_scan_email E now c headers body links)))"
  by (auto simp: post_scan_email_def Let_def reachable_link_writes)

subsection \<open>The example worlds, evaluated\<close>

lemma example_lower:
  "toLowerCase env_offline = ascii_lower" "toLowerCase env_online = ascii_lower"
  "toLowerCase env_garbled = ascii_lower" "toLowerCase env_garbled_second = ascii_lower"
  by (simp_all add: env_offline_def env_online_def env_garbled_def env_garbled_second_def)

lemma example_parser:
  "url_hostname env_offline = simple_hostname" "url_hostname env_online = simple_hostname"
  "url_hostname env_garbled = simple_hostname" "url_hostname env_garbled_second = simple_hostname"
  by (simp_all add: env_offline_def env_online_def env_garbled_def env_garbled_second_def)

lemma example_hostnames:
  "simple_hostname ''http://example.com/'' = Some ''example.com''"
  "simple_hostname ''http://flagged.example/'' = Some ''flagged.example''"
  "simple_hostname ''http://bad.example/'' = Some ''bad.example''"
  "simple_hostname ''http://good.example/'' = Some ''good.example''"
  "simple_hostname ''http://unrated.example/'' = Some ''unrated.example''"
  "simple_hostname ''http://a.example/::b'' = Some ''a.example''"
  by (simp_all add: simple_hostname_def simple_host_def startsWith_def)

text \<open>None of the example URLs earns a heuristic point.\<close>

lemma plain_heuristics:
  assumes "url_hostname E = simple_hostname" and "toLowerCase E = ascii_lower"
    and "url \<in> {''http://example.com/'', ''http://flagged.example/'', ''http://bad.example/'',
                  ''http://good.example/'', ''http://unrated.example/'', ''http://a.example/::b''}"
    and "f = None \<or> f = Some url"
  shows "heuristicsScore E url None (Some 0) f = 0"
  using assms
  by (auto simp: heuristicsScore_def heuristics_try_def new_URL_def example_hostnames
      anchor_points_def truthy_def or_empty_def redirect_points_def final_points_def
      isPunycode_def includes_str_def sublist_Cons_right hasIPInHostname_def
      tld_points_def ascii_lower_def ascii_lower_char_def suspiciousTLDs_def)

lemma normalizeScore_simps:
  "normalizeScore FUndefined = None"
  "normalizeScore FNull = None"
  "normalizeScore (FNumber JNaN) = None"
  "normalizeScore (FNumber (JNum x)) = Some (Num (max 0 (min 100 (js_round x))))"
  "normalizeScore (FOther y) = Some (clamp_round y)"
  by (simp_all add: normalizeScore_def)

lemma offline_lookups:
  "callIPQS env_offline u = None" "callStalkPhish env_offline u = None"
  "getRedirectInfo env_offline u = \<lparr>finalUrl = None, redirectCount = 0\<rparr>"
  by (simp_all add: callIPQS_def callStalkPhish_def getRedirectInfo_def env_offline_def truthy_def)

lemma example_fresh:
  "aggregate_fresh env_offline ''http://example.com/'' None None =
     \<lparr>r_url = ''http://example.com/'', r_verdict = Suspicious, r_score = Num 60,
      r_breakdown = (), r_cached = None\<rparr>"
  "aggregate_fresh env_offline ''http://a.example/::b'' None None =
     \<lparr>r_url = ''http://a.example/::b'', r_verdict = Suspicious, r_score = Num 60,
      r_breakdown = (), r_cached = None\<rparr>"
  by (simp_all add: aggregate_fresh_def Let_def offline_lookups plain_heuristics example_parser
      example_lower truthy_def ipqs_score_of_def stalk_score_of_def
      baseScore_absent heuristicsContribution_def authBonus_def finalRaw_def finalScore_def
      explicitMalicious_def url_verdict_def number_ge_def)

lemma empty_cache_misses: "cache_get Map.empty now k = None"
  by (simp add: cache_get_def)

lemma example_ttl:
  "CACHE_TTL_SECONDS env_offline = 3600" "CACHE_TTL_SECONDS env_online = 600"
  "CACHE_TTL_SECONDS env_garbled = 600" "CACHE_TTL_SECONDS env_garbled_second = 600"
  by (simp_all add: CACHE_TTL_SECONDS_def env_offline_def env_online_def env_garbled_def
      env_garbled_second_def)

lemma example_scan:
  "aggregateSignals env_offline 0 Map.empty ''http://example.com/'' None None =
     (\<lparr>r_url = ''http://example.com/'', r_verdict = Suspicious, r_score = Num 60,
       r_breakdown = (), r_cached = None\<rparr>,
      [cacheKey ''http://example.com/'' None None \<mapsto>
         (\<lparr>r_url = ''http://example.com/'', r_verdict = Suspicious, r_score = Num 60,
           r_breakdown = (), r_cached = None\<rparr>, 3600000)],
      [Call_callIPQS ''http://example.com/'', Call_callStalkPhish ''http://example.com/'',
       Call_getRedirectInfo ''http://example.com/'',
       Call_cache_set (cacheKey ''http://example.com/'' None None)])"
  by (simp add: aggregateSignals_def Let_def empty_cache_misses example_fresh cache_set_def
      example_ttl lookups_def truthy_def)

lemma cache_example_eq:
  "cache_example =
     [cacheKey ''http://example.com/'' None None \<mapsto>
         (\<lparr>r_url = ''http://example.com/'', r_verdict = Suspicious, r_score = Num 60,
           r_breakdown = (), r_cached = None\<rparr>, 3600000)]"
  by (simp add: cache_example_def post_scan_def truthy_def or_empty_def example_scan)

lemma cache_example_reachable: "reachable cache_example"
  unfolding cache_example_def by (rule reachable_post_scan [OF reachable.start])

lemma cache_example_hit:
  "aggregateSignals E 5 cache_example ''http://example.com/'' None None =
     (\<lparr>r_url = ''http://example.com/'', r_verdict = Suspicious, r_score = Num 60,
       r_breakdown = (), r_cached = Some True\<rparr>, cache_example, [])"
  by (simp add: cache_example_eq aggregateSignals_def Let_def cache_get_def)

lemma example_email:
  "fst (post_scan_email env_offline 0 Map.empty None (Some ''urgent'') None) =
     Status200 \<lparr>e_ok = True, e_verdict = Safe, e_score = 6,
       e_breakdown =
         \<lparr>headerAnalysis = \<lparr>report_spf = ''neutral'', report_dkim = ''neutral'',
                             report_dmarc = ''neutral'', mismatch_from_return = False\<rparr>,
          bodyAnalysis = \<lparr>analysis_keywords = [''urgent'']\<rparr>,
          linkAnalysis = \<lparr>highestLinkScore = 0, mostMaliciousLink = None\<rparr>,
          breakdown_finalScore = 6\<rparr>\<rparr>"
  by (simp add: post_scan_email_def Let_def truthy_def or_empty_def analyzeHeaders_def
      analyzeBody_def urgencyKeywords_def example_lower ascii_lower_def ascii_lower_char_def
      includes_str_def sublist_Cons_right email_score_def js_round_def email_verdict_def
      MALICIOUS_THRESHOLD_def SUSPICIOUS_THRESHOLD_def)

lemma online_lookups:
  "callIPQS env_online u =
     Some \<lparr>ipqs_score =
             (if u = ''http://unrated.example/'' then None
              else Some (Num (if u = ''http://bad.example/'' then 95 else 0))),
           flags = \<lparr>malicious = (u = ''http://flagged.example/''), phishing = False,
                    malware = False, suspicious = False\<rparr>\<rparr>"
  "callStalkPhish env_online u = Some \<lparr>stalk_score = None\<rparr>"
  "getRedirectInfo env_online u =
     \<lparr>finalUrl = (if u = [] then None else Some u), redirectCount = 0\<rparr>"
  by (simp_all add: callIPQS_def callStalkPhish_def getRedirectInfo_def env_online_def
      truthy_def normalizeScore_simps js_round_def)


text \<open>
  In the two worlds with a garbled score every computed result has the score \<open>NaN\<close>
  and the verdict safe, whatever the target.
\<close>

lemma garbled_lookups:
  "callIPQS env_garbled u =
     Some \<lparr>ipqs_score = Some NaN,
           flags = \<lparr>malicious = True, phishing = False, malware = False, suspicious = False\<rparr>\<rparr>"
  "callStalkPhish env_garbled u = Some \<lparr>stalk_score = Some (Num 20)\<rparr>"
  "callIPQS env_garbled_second u =
     Some \<lparr>ipqs_score = Some (Num 90),
           flags = \<lparr>malicious = False, phishing = False, malware = False, suspicious = False\<rparr>\<rparr>"
  "callStalkPhish env_garbled_second u = Some \<lparr>stalk_score = Some NaN\<rparr>"
  by (simp_all add: callIPQS_def callStalkPhish_def env_garbled_def env_garbled_second_def
      truthy_def normalizeScore_simps js_round_def)

lemma garbled_fresh:
  "aggregate_fresh env_garbled url a s =
     \<lparr>r_url = url, r_verdict = Safe, r_score = NaN, r_breakdown = (), r_cached = None\<rparr>"
  "aggregate_fresh env_garbled_second url a s =
     \<lparr>r_url = url, r_verdict = Safe, r_score = NaN, r_breakdown = (), r_cached = None\<rparr>"
  by (simp_all add: aggregate_fresh_def Let_def garbled_lookups ipqs_score_of_def
      stalk_score_of_def baseScore_NaN finalRaw_def finalScore_def url_verdict_def number_ge_def)

subsection \<open>Absent signals\<close>

text \<open>
  Claim C5. In a scan that consults the two reputation sources, a source whose score
  is absent (the client returned \<open>null\<close>, or a reply whose score is \<open>null\<close> or missing)
  adds nothing to the weighted sum nor to the total weight. With both scores absent the
  base score is the neutral 50: the score of the scan is 50 plus the capped heuristic
  contribution plus the authentication offsets, clamped to 0..100 (and raised to 85
  when a reply without a score still carries an explicit flag). With one score absent
  the base score is the other source's score. Without API keys both clients return
  \<open>null\<close>.
\<close>

theorem absent_signals_base_50:
  assumes "Call_callIPQS url \<in> set (snd (snd (aggregateSignals E now c url anchorText senderDomain)))"
    and "Call_callStalkPhish url
           \<in> set (snd (snd (aggregateSignals E now c url anchorText senderDomain)))"
  shows "(let score = r_score (fst (aggregateSignals E now c url anchorText senderDomain));
              ipqsScore = ipqs_score_of (callIPQS E url);
              stalkScore = stalk_score_of (callStalkPhish E url);
              explicit = explicitMalicious (callIPQS E url);
              contribution = heuristicsContribution
                (heuristicsScore E url anchorText (Some (redirectCount (getRedirectInfo E url)))
                   (finalUrl (getRedirectInfo E url)));
              bonus = authBonus (if truthy senderDomain
                                 then checkDomainAuth E (or_empty senderDomain)
                                 else \<lparr>spf = False, dmarc = False\<rparr>)
          in (ipqsScore = None \<and> stalkScore = None \<longrightarrow>
                score = finalScore explicit (finalRaw (Num 50) contribution bonus))
             \<and> (callIPQS E url = None \<and> stalkScore = None \<longrightarrow>
                score = finalRaw (Num 50) contribution bonus)
             \<and> (\<forall>b. ipqsScore = None \<and> stalkScore = Some (Num b) \<longrightarrow>
                score = finalScore explicit (finalRaw (Num b) contribution bonus))
             \<and> (\<forall>a. ipqsScore = Some (Num a) \<and> stalkScore = None \<longrightarrow>
                score = finalScore explicit (finalRaw (Num a) contribution bonus)))
         \<and> baseScore None None = Num 50
         \<and> weightedSum None None = Num 0 \<and> totalWeight None None = 0
         \<and> weightedSum None (Some s) = number_plus (Num 0) (number_times s WEIGHTS_stalkphish)
         \<and> totalWeight None (Some s) = WEIGHTS_stalkphish
         \<and> weightedSum (Some s) None = number_plus (Num 0) (number_times s WEIGHTS_ipqs)
         \<and> totalWeight (Some s) None = WEIGHTS_ipqs
         \<and> (\<not> truthy (IPQS_API_KEY E) \<and> \<not> truthy (STALKPHISH_API_KEY E)
              \<longrightarrow> callIPQS E url = None \<and> callStalkPhish E url = None)"
proof -
  let ?score = "r_score (fst (aggregateSignals E now c url anchorText senderDomain))"
  let ?i = "ipqs_score_of (callIPQS E url)"
  let ?s = "stalk_score_of (callStalkPhish E url)"
  let ?e = "explicitMalicious (callIPQS E url)"
  let ?h = "heuristicsContribution
              (heuristicsScore E url anchorText (Some (redirectCount (getRedirectInfo E url)))
                 (finalUrl (getRedirectInfo E url)))"
  let ?a = "authBonus (if truthy senderDomain then checkDomainAuth E (or_empty senderDomain)
                       else \<lparr>spf = False, dmarc = False\<rparr>)"
  have miss: "cache_get c now (cacheKey url anchorText senderDomain) = None"
    using assms(1) by (simp add: consults_iff_miss)
  have score: "?score = finalScore ?e (finalRaw (baseScore ?i ?s) ?h ?a)"
    using aggregate_miss [OF miss] by (simp add: fresh_score)
  have both: "?i = None \<and> ?s = None \<longrightarrow> ?score = finalScore ?e (finalRaw (Num 50) ?h ?a)"
    by (simp add: score baseScore_absent)
  have client: "callIPQS E url = None \<and> ?s = None \<longrightarrow> ?score = finalRaw (Num 50) ?h ?a"
    by (simp add: score baseScore_absent ipqs_score_of_def explicitMalicious_def finalScore_def)
  have second: "\<forall>b. ?i = None \<and> ?s = Some (Num b) \<longrightarrow>
      ?score = finalScore ?e (finalRaw (Num b) ?h ?a)"
    by (simp add: score baseScore_only_stalk)
  have first: "\<forall>a. ?i = Some (Num a) \<and> ?s = None \<longrightarrow>
      ?score = finalScore ?e (finalRaw (Num a) ?h ?a)"
    by (simp add: score baseScore_only_ipqs)
  have sums: "weightedSum None None = Num 0 \<and> totalWeight None None = 0
         \<and> weightedSum None (Some s) = number_plus (Num 0) (number_times s WEIGHTS_stalkphish)
         \<and> totalWeight None (Some s) = WEIGHTS_stalkphish
         \<and> weightedSum (Some s) None = number_plus (Num 0) (number_times s WEIGHTS_ipqs)
         \<and> totalWeight (Some s) None = WEIGHTS_ipqs"
    by (simp add: weightedSum_def totalWeight_def Let_def)
  have keys: "\<not> truthy (IPQS_API_KEY E) \<and> \<not> truthy (STALKPHISH_API_KEY E)
              \<longrightarrow> callIPQS E url = None \<and> callStalkPhish E url = None"
    by (simp add: callIPQS_def callStalkPhish_def)
  show ?thesis
    unfolding Let_def using both client second first sums keys baseScore_absent by blast
qed

theorem absent_signals_base_50_witness:
  "Call_callIPQS ''http://unrated.example/''
     \<in> set (snd (snd (aggregateSignals env_online 0 Map.empty ''http://unrated.example/'' None None)))
   \<and> Call_callStalkPhish ''http://unrated.example/''
     \<in> set (snd (snd (aggregateSignals env_online 0 Map.empty ''http://unrated.example/'' None None)))
   \<and> callIPQS env_online ''http://unrated.example/'' =
        Some \<lparr>ipqs_score = None,
              flags = \<lparr>malicious = False, phishing = False, malware = False, suspicious = False\<rparr>\<rparr>
   \<and> callStalkPhish env_online ''http://unrated.example/'' = Some \<lparr>stalk_score = None\<rparr>
   \<and> ipqs_score_of (callIPQS env_online ''http://unrated.example/'') = None
   \<and> stalk_score_of (callStalkPhish env_online ''http://unrated.example/'') = None
   \<and> r_score (fst (aggregateSignals env_online 0 Map.empty ''http://unrated.example/'' None None))
       = Num 60"
proof -
  have h1: "Call_callIPQS ''http://unrated.example/''
     \<in> set (snd (snd (aggregateSignals env_online 0 Map.empty ''http://unrated.example/'' None None)))"
    and h2: "Call_callStalkPhish ''http://unrated.example/''
     \<in> set (snd (snd (aggregateSignals env_online 0 Map.empty ''http://unrated.example/'' None None)))"
    by (simp_all add: consults_iff_miss empty_cache_misses)
  have r1: "callIPQS env_online ''http://unrated.example/'' =
        Some \<lparr>ipqs_score = None,
              flags = \<lparr>malicious = False, phishing = False, malware = False, suspicious = False\<rparr>\<rparr>"
    and r2: "callStalkPhish env_online ''http://unrated.example/'' = Some \<lparr>stalk_score = None\<rparr>"
    by (simp_all add: online_lookups)
  have a1: "ipqs_score_of (callIPQS env_online ''http://unrated.example/'') = None"
    and a2: "stalk_score_of (callStalkPhish env_online ''http://unrated.example/'') = None"
    by (simp_all add: r1 r2 ipqs_score_of_def stalk_score_of_def)
  have "r_score (fst (aggregateSignals env_online 0 Map.empty ''http://unrated.example/'' None None))
      = finalScore (explicitMalicious (callIPQS env_online ''http://unrated.example/''))
          (finalRaw (Num 50)
             (heuristicsContribution
                (heuristicsScore env_online ''http://unrated.example/'' None
                   (Some (redirectCount (getRedirectInfo env_online ''http://unrated.example/'')))
                   (finalUrl (getRedirectInfo env_online ''http://unrated.example/''))))
             (authBonus (if truthy None then checkDomainAuth env_online (or_empty None)
                         else \<lparr>spf = False, dmarc = False\<rparr>)))"
    using absent_signals_base_50 [OF h1 h2] a1 a2 unfolding Let_def by blast
  also have "\<dots> = Num 60"
    by (simp add: online_lookups plain_heuristics example_parser example_lower truthy_def
        explicitMalicious_def finalScore_def heuristicsContribution_def authBonus_def
        finalRaw_def)
  finally show ?thesis using h1 h2 r1 r2 a1 a2 by blast
qed

subsection \<open>A score that is not a number\<close>

text \<open>
  Claim C1. The claim holds whenever no consulted source sends a score that converts
  to \<open>NaN\<close> (\<open>fresh_numeric\<close>). It fails otherwise: \<open>normalizeScore\<close> tests
  \<open>Number.isNaN(n)\<close> before it converts \<open>n\<close>, so the string \<open>'n/a'\<close> passes the guard
  and becomes the score \<open>NaN\<close>; the blend is then \<open>NaN\<close>, \<open>Math.max(NaN, 85)\<close> is
  \<open>NaN\<close>, and no threshold is reached. A reply that flags the URL as malicious and
  carries such a score gets the score \<open>NaN\<close> and the verdict safe.
\<close>

theorem flagged_reply_with_garbled_score:
  "Call_callIPQS ''http://flagged.example/''
     \<in> set (snd (snd (aggregateSignals env_garbled 0 Map.empty ''http://flagged.example/'' None None)))
   \<and> normalizeScore (FOther JNaN) = Some NaN
   \<and> callIPQS env_garbled ''http://flagged.example/'' =
        Some \<lparr>ipqs_score = Some NaN,
              flags = \<lparr>malicious = True, phishing = False, malware = False, suspicious = False\<rparr>\<rparr>
   \<and> fst (aggregateSignals env_garbled 0 Map.empty ''http://flagged.example/'' None None) =
        \<lparr>r_url = ''http://flagged.example/'', r_verdict = Safe, r_score = NaN,
         r_breakdown = (), r_cached = None\<rparr>
   \<and> \<not> number_ge NaN 85"
  by (simp add: consults_iff_miss empty_cache_misses aggregate_miss garbled_lookups garbled_fresh
      normalizeScore_simps number_ge_def)

text \<open>
  Claim C2. The email score is always an integer within 0..100
  (\<open>email_scores_within_0_100\<close>), and so is the URL score when no source sends a score
  that converts to \<open>NaN\<close> (\<open>fresh_numeric\<close>). The claim fails on the URL path
  otherwise, by the defect of C1: with a second provider that sends \<open>'n/a'\<close> as
  \<open>riskScore\<close> the score in the response of \<open>POST /scan\<close> is \<open>NaN\<close>, which is neither
  at least 0 nor at most 100.
\<close>

theorem scan_response_score_not_a_number:
  "fst (post_scan env_garbled_second 0 Map.empty (Some ''http://good.example/'') None None) =
     Status200 \<lparr>r_url = ''http://good.example/'', r_verdict = Safe, r_score = NaN,
                r_breakdown = (), r_cached = None, r_ok = True\<rparr>
   \<and> \<not> number_ge NaN 0 \<and> \<not> number_le NaN 100"
  by (simp add: post_scan_def truthy_def or_empty_def aggregateSignals_def Let_def
      empty_cache_misses garbled_fresh number_ge_def number_le_def)

text \<open>
  Claim C3. The thresholds are as claimed on every score that is a number
  (\<open>url_verdict_cases\<close>, \<open>email_verdict_cases\<close>), and an email score always is one.
  The claim fails on the URL path by the defect of C1: a score \<open>NaN\<close> reaches no
  threshold and gets the verdict safe, although it is not at most 39.
\<close>

theorem not_a_number_is_judged_safe:
  "r_score (fst (aggregateSignals env_garbled_second 0 Map.empty ''http://bad.example/'' None None))
     = NaN
   \<and> r_verdict (fst (aggregateSignals env_garbled_second 0 Map.empty ''http://bad.example/'' None None))
     = Safe
   \<and> url_verdict NaN = Safe
   \<and> \<not> number_le NaN 39"
  by (simp add: aggregate_miss empty_cache_misses garbled_fresh url_verdict_def number_ge_def
      number_le_def)

subsection \<open>Email scores\<close>

lemma email_response:
  "fst (post_scan_email E now c headers body links) = Status200 resp \<Longrightarrow>
     e_verdict resp = email_verdict (e_score resp)
     \<and> e_score resp = email_score (fst (analyzeHeaders E headers)) (fst (analyzeBody E body))
          (highestLinkScore (linkAnalysis (e_breakdown resp)))
     \<and> highestLinkScore (linkAnalysis (e_breakdown resp)) =
         fst (link_loop (map (\<lambda>l. fst (scan_link E now c l))
                (case links of None \<Rightarrow> [] | Some xs \<Rightarrow> xs)) (0, None))"
  by (auto simp: post_scan_email_def Let_def split: if_splits)

lemma analyzeHeaders_nonneg: "0 \<le> fst (analyzeHeaders E headers)"
  by (simp add: analyzeHeaders_def Let_def)

lemma keyword_loop_nonneg: "0 \<le> fst acc \<Longrightarrow> 0 \<le> fst (keyword_loop lowerBody ks acc)"
  by (induction lowerBody ks acc rule: keyword_loop.induct) auto

lemma analyzeBody_nonneg: "0 \<le> fst (analyzeBody E body)"
  by (simp add: analyzeBody_def keyword_loop_nonneg)


lemma link_loop_fold:
  "fst (link_loop rs (hi, m)) = fold max (numeric (map r_score rs)) hi"
proof (induction rs arbitrary: hi m)
  case Nil
  show ?case by simp
next
  case (Cons r rs)
  show ?case
  proof (cases "r_score r")
    case NaN
    then show ?thesis using Cons.IH [of hi m] by (simp add: number_gt_def)
  next
    case (Num n)
    then show ?thesis
      using Cons.IH [of n] Cons.IH [of hi m] by (simp add: number_gt_def max_def)
  qed
qed

lemma link_loop_Max:
  "fst (link_loop rs (hi, m)) = Max (insert hi (set (numeric (map r_score rs))))"
  using Max.set_eq_fold [of hi "numeric (map r_score rs)"] by (simp add: link_loop_fold)

lemma link_loop_nonneg: "0 \<le> fst (link_loop rs (0, None))"
  by (simp add: link_loop_Max)

lemma email_score_range:
  assumes "0 \<le> h" and "0 \<le> b" and "0 \<le> l"
  shows "0 \<le> email_score h b l \<and> email_score h b l \<le> 100"
proof -
  have "0 \<le> real_of_int h * (4 / 10) + real_of_int b * (2 / 10) + real_of_int l * (4 / 10)"
    using assms by simp
  then have lo: "0 \<le> email_score h b l"
    by (simp add: email_score_def js_round_def)
  have "min 100 (real_of_int h * (4 / 10) + real_of_int b * (2 / 10) + real_of_int l * (4 / 10))
          + 1 / 2 < 101"
    by simp
  then have "email_score h b l \<le> 100"
    unfolding email_score_def js_round_def
    by (simp add: floor_less_iff [symmetric] del: floor_less_iff)
  with lo show ?thesis by simp
qed

text \<open>
  Every 200 response of \<open>POST /scan-email\<close> has an integer score within 0..100 and the
  verdict of that score, whatever the link scans returned.
\<close>

lemma email_scores_within_0_100:
  assumes "fst (post_scan_email E now c headers body links) = Status200 resp"
  shows "0 \<le> e_score resp \<and> e_score resp \<le> 100 \<and> e_verdict resp = email_verdict (e_score resp)"
proof -
  from email_response [OF assms]
  have "e_score resp = email_score (fst (analyzeHeaders E headers)) (fst (analyzeBody E body))
          (highestLinkScore (linkAnalysis (e_breakdown resp)))"
    and "0 \<le> highestLinkScore (linkAnalysis (e_breakdown resp))"
    and "e_verdict resp = email_verdict (e_score resp)"
    by (simp_all add: link_loop_nonneg)
  then show ?thesis
    using email_score_range [OF analyzeHeaders_nonneg analyzeBody_nonneg] by simp
qed

subsection \<open>Repeated scans\<close>





subsection \<open>The worst link wins\<close>








subsection \<open>Cache keys\<close>

lemma cacheKey_equal_triples:
  "or_empty a1 = or_empty a2 \<Longrightarrow> or_empty s1 = or_empty s2 \<Longrightarrow>
     cacheKey url a1 s1 = cacheKey url a2 s2"
  by (simp add: cacheKey_def)

text \<open>
  Claim C7. Equal triples get equal keys (\<open>cacheKey_equal_triples\<close>), but the key
  joins the three strings with an unescaped \<open>::\<close>, so different triples can get the
  same key: the link \<open>http://a.example/::b\<close> with no anchor text and the link
  \<open>http://a.example/\<close> with the anchor text \<open>b::\<close> do. A scan of the second, after
  a scan of the first, is answered from the first one's entry: it returns the other
  URL's result, in any world and without any lookup.
\<close>

theorem cache_key_collision:
  "cacheKey ''http://a.example/::b'' None None = cacheKey ''http://a.example/'' (Some ''b::'') None
   \<and> (''http://a.example/::b'', or_empty None, or_empty None)
       \<noteq> (''http://a.example/'', or_empty (Some ''b::''), or_empty None)
   \<and> fst (aggregateSignals env_offline 0 Map.empty ''http://a.example/::b'' None None) =
       \<lparr>r_url = ''http://a.example/::b'', r_verdict = Suspicious, r_score = Num 60,
        r_breakdown = (), r_cached = None\<rparr>
   \<and> aggregateSignals env_online 1
        (fst (snd (aggregateSignals env_offline 0 Map.empty ''http://a.example/::b'' None None)))
        ''http://a.example/'' (Some ''b::'') None =
       (\<lparr>r_url = ''http://a.example/::b'', r_verdict = Suspicious, r_score = Num 60,
         r_breakdown = (), r_cached = Some True\<rparr>,
        fst (snd (aggregateSignals env_offline 0 Map.empty ''http://a.example/::b'' None None)),
        [])"
proof -
  have k: "cacheKey ''http://a.example/::b'' None None =
      cacheKey ''http://a.example/'' (Some ''b::'') None"
    by (simp add: cacheKey_def or_empty_def)
  have first: "aggregateSignals env_offline 0 Map.empty ''http://a.example/::b'' None None =
      (\<lparr>r_url = ''http://a.example/::b'', r_verdict = Suspicious, r_score = Num 60,
        r_breakdown = (), r_cached = None\<rparr>,
       [cacheKey ''http://a.example/::b'' None None \<mapsto>
          (\<lparr>r_url = ''http://a.example/::b'', r_verdict = Suspicious, r_score = Num 60,
            r_breakdown = (), r_cached = None\<rparr>, 3600000)],
       lookups ''http://a.example/::b'' None @ [Call_cache_set (cacheKey ''http://a.example/::b'' None None)])"
    by (simp add: aggregateSignals_def Let_def empty_cache_misses example_fresh cache_set_def
        example_ttl)
  have second: "aggregateSignals env_online 1
        [cacheKey ''http://a.example/::b'' None None \<mapsto>
          (\<lparr>r_url = ''http://a.example/::b'', r_verdict = Suspicious, r_score = Num 60,
            r_breakdown = (), r_cached = None\<rparr>, 3600000)]
        ''http://a.example/'' (Some ''b::'') None =
       (\<lparr>r_url = ''http://a.example/::b'', r_verdict = Suspicious, r_score = Num 60,
         r_breakdown = (), r_cached = Some True\<rparr>,
        [cacheKey ''http://a.example/::b'' None None \<mapsto>
          (\<lparr>r_url = ''http://a.example/::b'', r_verdict = Suspicious, r_score = Num 60,
            r_breakdown = (), r_cached = None\<rparr>, 3600000)],
        [])"
    by (simp add: aggregateSignals_def Let_def cache_get_def k [symmetric])
  show ?thesis
    using k second by (simp add: first or_empty_def)
qed

subsection \<open>The response of POST /scan\<close>

text \<open>
  Claim C8, as stated, fails on a cache miss: the response to the first scan of
  \<open>http://example.com/\<close> has no property \<open>cached\<close>.
\<close>

theorem scan_miss_response_has_no_cached:
  "fst (post_scan env_offline 0 Map.empty (Some ''http://example.com/'') None None) =
     Status200 \<lparr>r_url = ''http://example.com/'', r_verdict = Suspicious, r_score = Num 60,
                r_breakdown = (), r_cached = None, r_ok = True\<rparr>"
  by (simp add: post_scan_def truthy_def or_empty_def example_scan)

text \<open>
  Claim C8, amended. A request with a non-empty \<open>url\<close> gets a 200 response holding
  \<open>ok = true\<close> and the \<open>url\<close>, \<open>verdict\<close>, \<open>score\<close> and \<open>breakdown\<close> of the
  aggregated result. The response has the property \<open>cached\<close>, with the value true,
  exactly when the result came from the cache; on a cache miss it has no such property
  and its \<open>url\<close> is the requested one.
\<close>

theorem scan_response_fields:
  assumes "truthy url"
  shows "\<exists>resp c' calls.
           post_scan E now c url anchorText senderDomain = (Status200 resp, c', calls)
           \<and> r_ok resp
           \<and> r_url resp = r_url (fst (aggregateSignals E now c (or_empty url) anchorText senderDomain))
           \<and> r_verdict resp =
               r_verdict (fst (aggregateSignals E now c (or_empty url) anchorText senderDomain))
           \<and> r_score resp =
               r_score (fst (aggregateSignals E now c (or_empty url) anchorText senderDomain))
           \<and> r_breakdown resp = ()
           \<and> r_cached resp =
               (if cache_get c now (cacheKey (or_empty url) anchorText senderDomain) = None
                then None else Some True)
           \<and> (cache_get c now (cacheKey (or_empty url) anchorText senderDomain) = None
                \<longrightarrow> r_url resp = or_empty url)"
proof (cases "cache_get c now (cacheKey (or_empty url) anchorText senderDomain)")
  case None
  with assms show ?thesis
    by (simp add: post_scan_def aggregateSignals_def Let_def aggregate_fresh_def)
next
  case (Some hit)
  with assms show ?thesis
    by (simp add: post_scan_def aggregateSignals_def Let_def)
qed

theorem scan_response_fields_witness:
  "truthy (Some ''http://example.com/'')
   \<and> r_ok (case fst (post_scan env_online 5 cache_example (Some ''http://example.com/'') None None)
            of Status200 resp \<Rightarrow> resp)
   \<and> r_cached (case fst (post_scan env_online 5 cache_example (Some ''http://example.com/'') None None)
                of Status200 resp \<Rightarrow> resp) = Some True
   \<and> r_cached (case fst (post_scan env_online 0 Map.empty (Some ''http://bad.example/'') None None)
                of Status200 resp \<Rightarrow> resp) = None"
proof -
  have t: "truthy (Some ''http://example.com/'')" and t': "truthy (Some ''http://bad.example/'')"
    by (simp_all add: truthy_def)
  have hit: "cache_get cache_example 5 (cacheKey (or_empty (Some ''http://example.com/'')) None None)
      \<noteq> None"
    by (simp add: cache_example_eq cache_get_def or_empty_def)
  have miss: "cache_get Map.empty 0 (cacheKey (or_empty (Some ''http://bad.example/'')) None None)
      = None"
    by (rule empty_cache_misses)
  from scan_response_fields [OF t, of env_online 5 cache_example None None] hit
  have a: "r_ok (case fst (post_scan env_online 5 cache_example (Some ''http://example.com/'') None None)
            of Status200 resp \<Rightarrow> resp)
   \<and> r_cached (case fst (post_scan env_online 5 cache_example (Some ''http://example.com/'') None None)
                of Status200 resp \<Rightarrow> resp) = Some True"
    by auto
  from scan_response_fields [OF t', of env_online 0 Map.empty None None] miss
  have b: "r_cached (case fst (post_scan env_online 0 Map.empty (Some ''http://bad.example/'') None None)
                of Status200 resp \<Rightarrow> resp) = None"
    by auto
  from t a b show ?thesis by blast
qed

subsection \<open>heuristicsScore\<close>







subsection \<open>POST /scan-email without a body\<close>

text \<open>
  Claim C10. When the \<open>body\<close> of a \<open>POST /scan-email\<close> request is missing or empty,
  the handler answers 400, issues no call at all (no header analysis, no body analysis,
  no link scan, no lookup, no cache write) and leaves the cache as it was, whatever the
  headers, the links and the world are.
\<close>

theorem scan_email_without_body:
  assumes "body = None \<or> body = Some []"
  shows "post_scan_email E now c headers body links = (Status400 ''missing email body'', c, [])"
  using assms by (auto simp: post_scan_email_def truthy_def)

theorem scan_email_without_body_witness:
  "(Some [] = (None :: string option) \<or> Some [] = Some ([] :: string))
   \<and> post_scan_email env_online 5 cache_example (Some ''spf=fail'') (Some [])
        (Some [\<lparr>link_href = ''http://bad.example/'', link_anchorText = None\<rparr>]) =
       (Status400 ''missing email body'', cache_example, [])"
proof -
  have h: "Some [] = (None :: string option) \<or> Some [] = Some ([] :: string)" by simp
  from scan_email_without_body [OF h] h show ?thesis by blast
qed

end
